theory Spec2Isabelle
  imports Complex_Main
begin

section \<open>Values, errors and the transport\<close>

text \<open>
  A JSON value as \<^verbatim>\<open>response.json()\<close> returns it: \<^verbatim>\<open>None\<close>, a \<^verbatim>\<open>bool\<close>, an
  \<^verbatim>\<open>int\<close>, a \<^verbatim>\<open>float\<close>, a \<^verbatim>\<open>str\<close>, a \<^verbatim>\<open>list\<close> or a \<^verbatim>\<open>dict\<close> (the list
  of its items).  The same type serves for the JSON documents the clients send.
\<close>

datatype json =
    JNull
  | JBool bool
  | JInt int
  | JFloat real
  | JStr string
  | JArr "json list"
  | JObj "(string \<times> json) list"

text \<open>
  The exceptions the modules raise, as values.  \<open>RequestException\<close> is what
  \<^verbatim>\<open>requests.post\<close> raises when no answer arrives (connection failure, timeout),
  with its message; \<open>HTTPError\<close> is what \<^verbatim>\<open>response.raise_for_status()\<close> raises,
  with the status code and the body of the answer; \<open>JSONDecodeError\<close> is
  \<^verbatim>\<open>response.json()\<close> on a body that is not JSON.  \<open>ValueError\<close> carries the
  message the code gives it.  For the exceptions the interpreter raises the text of
  the message is not modelled: \<open>KeyError\<close> carries the missing key,
  \<open>AttributeError\<close> the missing attribute, \<open>TypeError\<close> the key of a subscription
  that the value does not support.  \<open>SliceError v\<close> is the exception of the slice
  \<^verbatim>\<open>v[:20]\<close> on a value that cannot be sliced: a \<^verbatim>\<open>TypeError\<close>, and for a
  dictionary, from Python 3.12 on, a \<^verbatim>\<open>KeyError\<close>.  \<open>ValueError_fromisoformat\<close> is the
  \<^verbatim>\<open>ValueError\<close> that \<^verbatim>\<open>datetime.fromisoformat\<close> raises, with the library's
  message.
\<close>

datatype error =
    RequestException string
  | HTTPError nat string
  | JSONDecodeError
  | KeyError string
  | ValueError string
  | AttributeError string
  | TypeError string
  | SliceError json
  | ValueError_fromisoformat

text \<open>
  What the remote platform does with one request is an input of the model: either no
  answer, or an answer with its status code, its body text and, when the body is JSON,
  what it parses to.  A parsed body that a method reads is either a JSON object, given
  by the keys the method reads, or a JSON value that is not an object.
\<close>

datatype 'a reply = NoReply string | Reply nat string "'a option"

datatype 'o body = Object 'o | NonObject

datatype payload = NoBody | Form "(string \<times> string) list" | Json "(string \<times> json) list"

text \<open>
  The value of a request header: a fixed text, or the f-string
  \<^verbatim>\<open>f"Bearer {v}"\<close>, that is the text \<^verbatim>\<open>Bearer\<close>, a blank and \<^verbatim>\<open>str(v)\<close>, which
  for a string \<open>v\<close> is \<open>v\<close> itself.
\<close>

datatype hval = Plain string | Bearer json

record request =
  req_method :: string
  req_url :: string
  req_headers :: "(string \<times> hval) list"
  req_body :: payload

text \<open>\<^verbatim>\<open>raise_for_status\<close>: an error for every 4xx and 5xx status.\<close>

definition raise_for_status :: "nat \<Rightarrow> string \<Rightarrow> error + unit" where
  "raise_for_status st txt = (if 400 \<le> st \<and> st < 600 then Inl (HTTPError st txt) else Inr ())"

section \<open>auth.py\<close>

text \<open>
  \<^verbatim>\<open>TokenResponse\<close>.  Time stamps (\<^verbatim>\<open>time.time()\<close>, a float) are real numbers here
  and their subtraction is exact.  \<^verbatim>\<open>authenticate\<close> stores what the answer of the
  platform holds, so \<open>access_token\<close>, \<open>token_type\<close> and \<open>id_token\<close> are JSON values
  (\<open>JNull\<close> for \<^verbatim>\<open>None\<close>); \<open>expires_in\<close> is the integer the class declares and
  \<^verbatim>\<open>is_expired\<close> computes with.
\<close>

record TokenResponse =
  access_token :: json
  token_type :: json
  expires_in :: int
  id_token :: json
  obtained_at :: real

text \<open>
  \<^verbatim>\<open>is_expired(self, buffer_seconds=60)\<close>; \<open>now\<close> is the value \<^verbatim>\<open>time.time()\<close> returns
  in the call.
\<close>

definition is_expired :: "TokenResponse \<Rightarrow> real \<Rightarrow> int \<Rightarrow> bool" where
  "is_expired t now buffer_seconds =
     (if obtained_at t = 0 then True
      else let elapsed = now - obtained_at t
           in elapsed \<ge> of_int (expires_in t - buffer_seconds))"

text \<open>
  \<^verbatim>\<open>OrigoAuth\<close>; the field \<^verbatim>\<open>_token\<close> is \<open>token\<close>.
\<close>

record OrigoAuth =
  organization_id :: string
  client_id :: string
  client_secret :: string
  base_url :: string
  token :: "TokenResponse option"

definition token_endpoint :: "OrigoAuth \<Rightarrow> string" where
  "token_endpoint a =
     base_url a @ ''/authentication/customer/'' @ organization_id a @ ''/token''"

text \<open>
  The JSON object of the token endpoint's answer, at the four keys \<^verbatim>\<open>authenticate\<close>
  reads: each key is absent or present with its value.  The value at
  \<^verbatim>\<open>expires_in\<close> is an integer.
\<close>

record token_json =
  j_access_token :: "json option"
  j_token_type :: "json option"
  j_expires_in :: "int option"
  j_id_token :: "json option"

definition token_request :: "OrigoAuth \<Rightarrow> request" where
  "token_request a =
     \<lparr>req_method = ''POST'', req_url = token_endpoint a,
      req_headers = [(''Content-Type'', Plain ''application/x-www-form-urlencoded'')],
      req_body = Form [(''client_id'', client_id a), (''client_secret'', client_secret a),
                   (''grant_type'', ''client_credentials'')]\<rparr>"

text \<open>
  The values \<^verbatim>\<open>v[:20]\<close> is defined on: strings and lists.
\<close>

definition sliceable :: "json \<Rightarrow> bool" where
  "sliceable v = (case v of JStr _ \<Rightarrow> True | JArr _ \<Rightarrow> True | _ \<Rightarrow> False)"

text \<open>
  \<^verbatim>\<open>OrigoAuth.authenticate\<close>.  \<open>rep\<close> is what the platform does with the request,
  \<open>t\<close> the value of \<^verbatim>\<open>time.time()\<close> when the token is built.  The result is the
  returned token or the raised exception, the object afterwards, and the requests
  that were sent.  The \<^verbatim>\<open>except\<close> clause prints and raises the exception again;
  exceptions it does not catch leave the method all the same.  The subscription
  \<^verbatim>\<open>data["access_token"]\<close> raises \<^verbatim>\<open>TypeError\<close> on a body that is not an object and
  \<^verbatim>\<open>KeyError\<close> on an object without the key.  The token is assigned to \<^verbatim>\<open>_token\<close>
  before the line that prints \<^verbatim>\<open>access_token[:20]\<close>, so when that slice raises
  the new token is already in place.
\<close>

definition authenticate ::
  "OrigoAuth \<Rightarrow> token_json body reply \<Rightarrow> real \<Rightarrow> (error + TokenResponse) \<times> OrigoAuth \<times> request list" where
  "authenticate a rep t =
     (case rep of
        NoReply m \<Rightarrow> (Inl (RequestException m), a, [token_request a])
      | Reply st txt js \<Rightarrow>
          (case raise_for_status st txt of
             Inl e \<Rightarrow> (Inl e, a, [token_request a])
           | Inr _ \<Rightarrow>
               (case js of
                  None \<Rightarrow> (Inl JSONDecodeError, a, [token_request a])
                | Some NonObject \<Rightarrow> (Inl (TypeError ''access_token''), a, [token_request a])
                | Some (Object data) \<Rightarrow>
                    (case j_access_token data of
                       None \<Rightarrow> (Inl (KeyError ''access_token''), a, [token_request a])
                     | Some v \<Rightarrow>
                         let tok = \<lparr>access_token = v,
                                    token_type = (case j_token_type data of None \<Rightarrow> JStr ''Bearer'' | Some x \<Rightarrow> x),
                                    expires_in = (case j_expires_in data of None \<Rightarrow> 3600 | Some n \<Rightarrow> n),
                                    id_token = (case j_id_token data of None \<Rightarrow> JNull | Some x \<Rightarrow> x),
                                    obtained_at = t\<rparr>
                         in if sliceable v
                            then (Inr tok, a\<lparr>token := Some tok\<rparr>, [token_request a])
                            else (Inl (SliceError v), a\<lparr>token := Some tok\<rparr>, [token_request a])))))"

text \<open>
  \<^verbatim>\<open>OrigoAuth.get_token\<close>.  \<open>now\<close> is the clock read by \<^verbatim>\<open>is_expired\<close>; \<open>rep\<close>
  and \<open>t\<close> are handed to \<^verbatim>\<open>authenticate\<close> when it is called.  What is returned is
  the \<^verbatim>\<open>access_token\<close> of the cached token, whatever value that is.
\<close>

definition get_token ::
  "OrigoAuth \<Rightarrow> real \<Rightarrow> token_json body reply \<Rightarrow> real \<Rightarrow> (error + json) \<times> OrigoAuth \<times> request list" where
  "get_token a now rep t =
     (if (case token a of None \<Rightarrow> True | Some tok \<Rightarrow> is_expired tok now 60)
      then (case authenticate a rep t of
              (Inl e, a', sent) \<Rightarrow> (Inl e, a', sent)
            | (Inr _, a', sent) \<Rightarrow>
                (case token a' of
                   None \<Rightarrow> (Inl (AttributeError ''access_token''), a', sent)
                 | Some tok' \<Rightarrow> (Inr (access_token tok'), a', sent)))
      else (case token a of
              None \<Rightarrow> (Inl (AttributeError ''access_token''), a, [])
            | Some tok \<Rightarrow> (Inr (access_token tok), a, [])))"

text \<open>\<^verbatim>\<open>OrigoAuth.get_headers\<close>.\<close>

definition get_headers ::
  "OrigoAuth \<Rightarrow> string \<Rightarrow> string \<Rightarrow> real \<Rightarrow> token_json body reply \<Rightarrow> real \<Rightarrow>
     (error + (string \<times> hval) list) \<times> OrigoAuth \<times> request list" where
  "get_headers a app_id app_version now rep t =
     (case get_token a now rep t of
        (Inl e, a', sent) \<Rightarrow> (Inl e, a', sent)
      | (Inr tk, a', sent) \<Rightarrow>
          (Inr [(''Authorization'', Bearer tk),
                (''Application-ID'', Plain app_id),
                (''Application-Version'', Plain app_version),
                (''Content-Type'', Plain ''application/json'')], a', sent))"

text \<open>
  Callers of \<^verbatim>\<open>get_token\<close> that share one \<^verbatim>\<open>OrigoAuth\<close> object.  The method has
  no lock, so another caller can run between the steps of one: between the test of the
  \<^verbatim>\<open>if\<close> and the call of \<^verbatim>\<open>authenticate\<close>, and between that call and the read of
  \<^verbatim>\<open>self._token.access_token\<close>.  A caller is at one of these points or has
  returned; \<open>step i\<close> lets caller \<open>i\<close> take its next step on the shared object, with
  the clock and the platform's answer of that moment; \<open>wire\<close> collects the requests
  sent.  A schedule is the list of the steps in the order they happen.
\<close>

datatype caller = Testing | Refreshing | Reading | Returned "error + json"

record system =
  shared :: OrigoAuth
  callers :: "caller list"
  wire :: "request list"



section \<open>credentials.py\<close>

datatype PassStatus = PENDING | PROVISIONING | ACTIVE | SUSPENDED | CANCELLED | DELETED

text \<open>
  A \<^verbatim>\<open>datetime\<close> value: the fields of Python's class, with the offset from UTC in
  minutes (\<open>None\<close> for a naive value).
\<close>

record datetime =
  year :: nat
  month :: nat
  day :: nat
  hour :: nat
  minute :: nat
  second :: nat
  microsecond :: nat
  utcoffset :: "int option"

text \<open>Values of fields declared \<^verbatim>\<open>Any\<close>: the scalars of a JSON document.\<close>

datatype pyval = PNone | PBool bool | PInt int | PStr string

text \<open>
  \<^verbatim>\<open>Pass\<close>; the fields \<^verbatim>\<open>id\<close> and \<^verbatim>\<open>created\<close> are \<open>pass_id\<close> and
  \<open>pass_created\<close>.
\<close>

record Pass =
  user_id :: string
  pass_template_id :: string
  pass_id :: "string option"
  status :: PassStatus
  pass_created :: "datetime option"
  platform :: "string option"
  credentials :: "(string \<times> pyval) list list"

text \<open>
  \<^verbatim>\<open>CredentialManagementAPI\<close>, the client that talks to the platform; its
  \<^verbatim>\<open>base_url\<close> is \<open>api_base_url\<close>.
\<close>

record CredentialManagementAPI =
  auth :: OrigoAuth
  api_base_url :: string

definition endpoint :: "CredentialManagementAPI \<Rightarrow> string" where
  "endpoint api = api_base_url api @ ''/pass''"

text \<open>
  \<^verbatim>\<open>CredentialManagementAPI.delete_pass\<close>.  The arguments of \<^verbatim>\<open>requests.delete\<close>
  are evaluated first, so \<^verbatim>\<open>get_headers\<close> runs (with the clock \<open>now\<close> and, if it
  authenticates, \<open>rep_auth\<close> and \<open>t\<close>); then the request is sent and \<open>rep\<close> is
  what the platform does with it; \<^verbatim>\<open>raise_for_status\<close> decides.
\<close>

definition delete_pass ::
  "CredentialManagementAPI \<Rightarrow> string \<Rightarrow> real \<Rightarrow> token_json body reply \<Rightarrow> real \<Rightarrow> 'b reply \<Rightarrow>
     (error + bool) \<times> CredentialManagementAPI \<times> request list" where
  "delete_pass api pid now rep_auth t rep =
     (case get_headers (auth api) ''acme-mobile-access'' ''1.0.0'' now rep_auth t of
        (Inl e, a', sent) \<Rightarrow> (Inl e, api\<lparr>auth := a'\<rparr>, sent)
      | (Inr hs, a', sent) \<Rightarrow>
          (let req = \<lparr>req_method = ''DELETE'', req_url = endpoint api @ ''/'' @ pid,
                      req_headers = hs, req_body = NoBody\<rparr>
           in case rep of
                NoReply m \<Rightarrow> (Inl (RequestException m), api\<lparr>auth := a'\<rparr>, sent @ [req])
              | Reply st txt js \<Rightarrow>
                  (case raise_for_status st txt of
                     Inl e \<Rightarrow> (Inl e, api\<lparr>auth := a'\<rparr>, sent @ [req])
                   | Inr _ \<Rightarrow> (Inr True, api\<lparr>auth := a'\<rparr>, sent @ [req]))))"

text \<open>
  \<^verbatim>\<open>MockCredentialManagementAPI\<close>, the in-memory implementation; the dictionary
  \<^verbatim>\<open>_passes\<close> is \<open>passes\<close>.  Its methods carry the prefix \<open>Mock_\<close>.
\<close>

record MockCredentialManagementAPI =
  mock_auth :: OrigoAuth
  mock_base_url :: string
  passes :: "string \<rightharpoonup> Pass"

definition Mock_suspend_pass ::
  "MockCredentialManagementAPI \<Rightarrow> string \<Rightarrow> (error + Pass) \<times> MockCredentialManagementAPI" where
  "Mock_suspend_pass m pid =
     (case passes m pid of
        Some p \<Rightarrow> (Inr (p\<lparr>status := SUSPENDED\<rparr>),
                   m\<lparr>passes := (passes m)(pid \<mapsto> p\<lparr>status := SUSPENDED\<rparr>)\<rparr>)
      | None \<Rightarrow> (Inl (ValueError (''Pass not found: '' @ pid)), m))"

definition Mock_resume_pass ::
  "MockCredentialManagementAPI \<Rightarrow> string \<Rightarrow> (error + Pass) \<times> MockCredentialManagementAPI" where
  "Mock_resume_pass m pid =
     (case passes m pid of
        Some p \<Rightarrow> (Inr (p\<lparr>status := ACTIVE\<rparr>),
                   m\<lparr>passes := (passes m)(pid \<mapsto> p\<lparr>status := ACTIVE\<rparr>)\<rparr>)
      | None \<Rightarrow> (Inl (ValueError (''Pass not found: '' @ pid)), m))"

definition Mock_delete_pass ::
  "MockCredentialManagementAPI \<Rightarrow> string \<Rightarrow> (error + bool) \<times> MockCredentialManagementAPI" where
  "Mock_delete_pass m pid =
     (if passes m pid \<noteq> None
      then (Inr True, m\<lparr>passes := (passes m)(pid := None)\<rparr>)
      else (Inr True, m))"

section \<open>callbacks.py\<close>

text \<open>\<^verbatim>\<open>EventFilter\<close>; its field \<^verbatim>\<open>id\<close> is \<open>filter_id\<close>.\<close>

record EventFilter =
  event_types :: "string list"
  filter_id :: "string option"

definition EventFilter_to_dict :: "EventFilter \<Rightarrow> (string \<times> json) list" where
  "EventFilter_to_dict f = [(''eventTypes'', JArr (map JStr (event_types f)))]"

text \<open>
  \<^verbatim>\<open>CallbackRegistration\<close>; the fields \<^verbatim>\<open>filter\<close>, \<^verbatim>\<open>id\<close> and \<^verbatim>\<open>created\<close> are
  \<open>filter_reg\<close>, \<open>reg_id\<close> and \<open>reg_created\<close>.  The id is whatever the answer
  of the platform holds at the key \<^verbatim>\<open>id\<close>, so it is a JSON value, \<open>JNull\<close> for
  \<^verbatim>\<open>None\<close>.
\<close>

record CallbackRegistration =
  url :: string
  filter_reg :: EventFilter
  http_header :: "string option"
  secret :: "string option"
  reg_id :: json
  reg_created :: "datetime option"

text \<open>
  \<^verbatim>\<open>CallbackRegistration.to_dict\<close>.  A dictionary is the list of its items in
  insertion order.  The test \<^verbatim>\<open>if self.http_header and self.secret\<close> holds when
  both are present and not empty.
\<close>

definition CallbackRegistration_to_dict :: "CallbackRegistration \<Rightarrow> (string \<times> json) list" where
  "CallbackRegistration_to_dict r =
     [(''url'', JStr (url r)), (''filter'', JObj (EventFilter_to_dict (filter_reg r)))] @
     (case http_header r of
        None \<Rightarrow> []
      | Some h \<Rightarrow>
          (case secret r of
             None \<Rightarrow> []
           | Some s \<Rightarrow>
               if h \<noteq> [] \<and> s \<noteq> []
               then [(''httpHeader'', JStr h), (''secret'', JStr s)]
               else []))"







text \<open>
  \<^verbatim>\<open>CloudEvent\<close>; its field \<^verbatim>\<open>id\<close> is \<open>event_id\<close>.  The fields declared
  \<^verbatim>\<open>str\<close> are strings; \<^verbatim>\<open>data\<close>, a \<^verbatim>\<open>Dict[str, Any]\<close>, maps keys to scalars.
\<close>

record CloudEvent =
  type :: string
  subject :: string
  time :: datetime
  data :: "string \<rightharpoonup> pyval"
  event_id :: "string option"
  source :: "string option"
  specversion :: string

text \<open>
  The raw payload of a webhook delivery, at the seven keys \<^verbatim>\<open>from_dict\<close> reads, each
  absent (\<open>None\<close>) or present with its value.  \<^verbatim>\<open>from_dict\<close> calls a string method
  on the value at \<^verbatim>\<open>time\<close>, so that value is any JSON value; the values at the other
  keys are only stored, and have the types the fields of \<^verbatim>\<open>CloudEvent\<close> declare.
\<close>

record event_payload =
  p_id :: "string option"
  p_type :: "string option"
  p_subject :: "string option"
  p_time :: "json option"
  p_data :: "(string \<rightharpoonup> pyval) option"
  p_source :: "string option"
  p_specversion :: "string option"

text \<open>\<^verbatim>\<open>s.replace("Z", "+00:00")\<close>: every occurrence is replaced.\<close>

definition replace_Z :: "string \<Rightarrow> string" where
  "replace_Z s = concat (map (\<lambda>c. if c = CHR ''Z'' then ''+00:00'' else [c]) s)"

text \<open>
  \<^verbatim>\<open>CloudEvent.from_dict\<close>.  The standard library's \<^verbatim>\<open>datetime.fromisoformat\<close> is the
  parameter \<open>fromisoformat\<close>: \<open>None\<close> where the library raises its \<^verbatim>\<open>ValueError\<close>.
  Only the time can make the construction fail: \<^verbatim>\<open>payload.get("time", "")\<close> is the
  empty string for a missing key; on a value that is not a string the method
  \<^verbatim>\<open>replace\<close> does not exist and \<^verbatim>\<open>AttributeError\<close> is raised; a string goes,
  with \<^verbatim>\<open>Z\<close> replaced, to the library.
\<close>

definition from_dict :: "(string \<Rightarrow> datetime option) \<Rightarrow> event_payload \<Rightarrow> error + CloudEvent" where
  "from_dict fromisoformat payload =
     (case (case p_time payload of None \<Rightarrow> JStr [] | Some v \<Rightarrow> v) of
        JStr s \<Rightarrow>
          (case fromisoformat (replace_Z s) of
             None \<Rightarrow> Inl ValueError_fromisoformat
           | Some tm \<Rightarrow>
               Inr \<lparr>type = (case p_type payload of None \<Rightarrow> [] | Some x \<Rightarrow> x),
                    subject = (case p_subject payload of None \<Rightarrow> [] | Some x \<Rightarrow> x),
                    time = tm,
                    data = (case p_data payload of None \<Rightarrow> Map.empty | Some d \<Rightarrow> d),
                    event_id = p_id payload,
                    source = p_source payload,
                    specversion = (case p_specversion payload of None \<Rightarrow> ''1.0'' | Some x \<Rightarrow> x)\<rparr>)
      | _ \<Rightarrow> Inl (AttributeError ''replace''))"

text \<open>Python's \<^verbatim>\<open>str()\<close> on a scalar, as an f-string applies it.\<close>

fun show_nat :: "nat \<Rightarrow> string" where
  "show_nat n =
     (if n < 10 then [''0123456789'' ! n]
      else show_nat (n div 10) @ [''0123456789'' ! (n mod 10)])"

declare show_nat.simps [simp del]

fun py_str :: "pyval \<Rightarrow> string" where
  "py_str PNone = ''None''"
| "py_str (PBool b) = (if b then ''True'' else ''False'')"
| "py_str (PInt i) = (if i < 0 then ''-'' @ show_nat (nat (- i)) else show_nat (nat i))"
| "py_str (PStr s) = s"

text \<open>\<^verbatim>\<open>d.get(key, default)\<close> and \<^verbatim>\<open>d.get(key)\<close>.\<close>

definition dict_get :: "(string \<rightharpoonup> pyval) \<Rightarrow> string \<Rightarrow> pyval \<Rightarrow> pyval" where
  "dict_get d k dflt = (case d k of None \<Rightarrow> dflt | Some v \<Rightarrow> v)"

text \<open>The interpreters \<^verbatim>\<open>_interpret_*\<close>, without the leading underscore.\<close>

definition interpret_pass_updated :: "CloudEvent \<Rightarrow> string" where
  "interpret_pass_updated e =
     (let status = dict_get (data e) ''status'' (PStr ''UNKNOWN'')
      in if status = PStr ''COMPLETED'' then
           ''Pass '' @ subject e @ '' provisioning COMPLETED successfully.\<newline>'' @
           ''User '' @ py_str (dict_get (data e) ''userId'' PNone) @ '' now has an active credential.\<newline>'' @
           ''Action: Update internal database to mark user's badge as ACTIVE.\<newline>'' @
           ''         Send confirmation notification to user.\<newline>'' @
           ''         Update access control system if needed.''
         else if status = PStr ''SUSPENDED'' then
           ''Pass '' @ subject e @ '' has been SUSPENDED.\<newline>'' @
           ''Action: Disable user's physical access in LenelS2.\<newline>'' @
           ''         Log the suspension event for audit.''
         else ''Pass '' @ subject e @ '' updated to status: '' @ py_str status)"

definition interpret_pass_created :: "CloudEvent \<Rightarrow> string" where
  "interpret_pass_created e =
     ''New pass '' @ subject e @ '' created for user '' @ py_str (dict_get (data e) ''userId'' PNone) @ ''.\<newline>'' @
     ''Action: Generate issuance token and send to user for provisioning.''"

definition interpret_user_created :: "CloudEvent \<Rightarrow> string" where
  "interpret_user_created e =
     ''User '' @ subject e @ '' created in HID Origo.\<newline>'' @
     ''Action: Proceed with pass creation for this user.''"

definition interpret_user_deleted :: "CloudEvent \<Rightarrow> string" where
  "interpret_user_deleted e =
     ''User '' @ subject e @ '' deleted from HID Origo.\<newline>'' @
     ''Action: Cleanup any local references.\<newline>'' @
     ''         Revoke access in physical access control system.''"

definition interpret_generic :: "CloudEvent \<Rightarrow> string" where
  "interpret_generic e = ''Event '' @ type e @ '' received for '' @ subject e"

text \<open>
  \<^verbatim>\<open>CloudEvent.interpret\<close> (\<open>CloudEvent_interpret\<close>): the dictionary \<^verbatim>\<open>interpretations\<close> and the lookup with
  the generic interpreter as default.
\<close>

definition interpretations :: "(string \<times> (CloudEvent \<Rightarrow> string)) list" where
  "interpretations =
     [(''PASS_UPDATED'', interpret_pass_updated),
      (''PASS_CREATED'', interpret_pass_created),
      (''USER_CREATED'', interpret_user_created),
      (''USER_DELETED'', interpret_user_deleted)]"

definition CloudEvent_interpret :: "CloudEvent \<Rightarrow> string" where
  "CloudEvent_interpret e =
     (let interpreter = (case map_of interpretations (type e) of
                           None \<Rightarrow> interpret_generic
                         | Some f \<Rightarrow> f)
      in interpreter e)"

section \<open>Concrete inputs\<close>

text \<open>
  The objects of the repository's demonstration (\<^verbatim>\<open>demo.py\<close> and the modules'
  \<^verbatim>\<open>__main__\<close> blocks), with fixed values where the demonstration draws random
  ones, and the answers of a platform they are run against.
\<close>

definition demo_token :: TokenResponse where
  "demo_token = \<lparr>access_token = JStr ''tok-1'', token_type = JStr ''Bearer'', expires_in = 3600,
                  id_token = JNull, obtained_at = 1000\<rparr>"

definition fresh_auth :: OrigoAuth where
  "fresh_auth = \<lparr>organization_id = ''demo-org-123'', client_id = ''demo-client-id'',
                  client_secret = ''demo-secret'',
                  base_url = ''https://api.origo.hidglobal.com'', token = None\<rparr>"

definition demo_auth :: OrigoAuth where
  "demo_auth = fresh_auth\<lparr>token := Some demo_token\<rparr>"

definition ok_reply :: "token_json body reply" where
  "ok_reply = Reply 200 [] (Some (Object \<lparr>j_access_token = Some (JStr ''tok-2''), j_token_type = None,
                                          j_expires_in = Some 3600, j_id_token = None\<rparr>))"


definition null_reply :: "token_json body reply" where
  "null_reply = Reply 200 [] (Some (Object \<lparr>j_access_token = Some JNull, j_token_type = None,
                                            j_expires_in = Some 3600, j_id_token = None\<rparr>))"

definition demo_pass :: Pass where
  "demo_pass = \<lparr>user_id = ''usr-abc123'', pass_template_id = ''tmpl-employee-badge-001'',
                 pass_id = Some ''pass-0123456789ab'', status = PENDING, pass_created = None,
                 platform = None,
                 credentials = [[(''type'', PStr ''SEOS''), (''id'', PStr ''cred-01234567'')]]\<rparr>"

definition demo_store :: MockCredentialManagementAPI where
  "demo_store = \<lparr>mock_auth = demo_auth, mock_base_url = ''https://api.origo.hidglobal.com'',
                  passes = [''pass-0123456789ab'' \<mapsto> demo_pass]\<rparr>"

definition demo_api :: CredentialManagementAPI where
  "demo_api = \<lparr>auth = demo_auth, api_base_url = ''https://api.origo.hidglobal.com''\<rparr>"

definition unpaired_registration :: CallbackRegistration where
  "unpaired_registration =
     \<lparr>url = ''http://acme.com/webhooks/origo'',
      filter_reg = \<lparr>event_types = [''USER_CREATED'', ''USER_UPDATED'', ''USER_DELETED''],
                    filter_id = None\<rparr>,
      http_header = Some ''Authorization'', secret = None, reg_id = JNull, reg_created = None\<rparr>"



definition example_event :: event_payload where
  "example_event =
     \<lparr>p_id = None, p_type = Some ''PASS_UPDATED'', p_subject = Some ''pass/45d3d21e-xxxx'',
      p_time = Some (JStr ''2025-11-10T14:05:00Z''),
      p_data = Some [''status'' \<mapsto> PStr ''COMPLETED'', ''userId'' \<mapsto> PStr ''b47d-56f8-8bcd'',
                     ''organizationId'' \<mapsto> PStr ''7521464''],
      p_source = None, p_specversion = None\<rparr>"

definition bare_event :: event_payload where
  "bare_event =
     \<lparr>p_id = None, p_type = None, p_subject = None, p_time = Some (JStr ''2025-11-10T14:05:00Z''),
      p_data = None, p_source = None, p_specversion = None\<rparr>"

text \<open>
  The value \<^verbatim>\<open>datetime.fromisoformat("2025-11-10T14:05:00+00:00")\<close> returns: the time
  of the example event once \<^verbatim>\<open>Z\<close> is replaced.
\<close>

definition example_time :: datetime where
  "example_time = \<lparr>year = 2025, month = 11, day = 10, hour = 14, minute = 5, second = 0,
                     microsecond = 0, utcoffset = Some 0\<rparr>"

definition scenario_event :: CloudEvent where
  "scenario_event =
     \<lparr>type = ''PASS_UPDATED'', subject = ''pass/abc'', time = example_time,
      data = [''status'' \<mapsto> PStr ''COMPLETED'', ''userId'' \<mapsto> PStr ''u1''],
      event_id = None, source = None, specversion = ''1.0''\<rparr>"

section \<open>Token expiry and refresh\<close>

lemma is_expired_iff:
  "obtained_at tok \<noteq> 0 \<Longrightarrow>
     is_expired tok now b = (now - obtained_at tok \<ge> of_int (expires_in tok - b))"
  by (simp add: is_expired_def)

lemma authenticate_sent: "snd (snd (authenticate a rep t)) = [token_request a]"
  by (simp add: authenticate_def Let_def split: reply.split option.split sum.split body.split)

lemma get_token_refresh:
  "(case token a of None \<Rightarrow> True | Some x \<Rightarrow> is_expired x now 60) \<Longrightarrow>
   get_token a now rep t =
     (case authenticate a rep t of
        (Inl e, a', sent) \<Rightarrow> (Inl e, a', sent)
      | (Inr _, a', sent) \<Rightarrow>
          (case token a' of
             None \<Rightarrow> (Inl (AttributeError ''access_token''), a', sent)
           | Some tok' \<Rightarrow> (Inr (access_token tok'), a', sent)))"
  by (simp add: get_token_def)

lemma get_token_refresh_snd:
  "(case token a of None \<Rightarrow> True | Some x \<Rightarrow> is_expired x now 60) \<Longrightarrow>
   snd (get_token a now rep t) = snd (authenticate a rep t)"
  by (cases "authenticate a rep t") (auto simp add: get_token_refresh split: sum.split option.split)

lemma get_token_cached:
  "token a = Some tok \<Longrightarrow> \<not> is_expired tok now 60 \<Longrightarrow>
   get_token a now rep t = (Inr (access_token tok), a, [])"
  by (simp add: get_token_def)

text \<open>
  C1.  A token with a nonzero \<open>obtained_at\<close> is usable (\<open>is_expired\<close> is false) exactly
  when the elapsed time \<open>now - obtained_at\<close> is strictly below \<open>expires_in - 60\<close>.  For
  \<open>expires_in = 3600\<close> the boundary is at 3540 seconds, and \<open>get_token\<close> called 3550
  seconds after the token was obtained calls \<open>authenticate\<close>: the request to the token
  endpoint is sent, and the object afterwards and the requests are those of
  \<open>authenticate\<close>.
\<close>

theorem token_usable_iff:
  assumes "obtained_at tok \<noteq> 0"
  shows "(\<not> is_expired tok now 60) = (now - obtained_at tok < of_int (expires_in tok) - 60)
       \<and> (expires_in tok = 3600 \<longrightarrow> is_expired tok now 60 = (now - obtained_at tok \<ge> 3540))
       \<and> (expires_in tok = 3600 \<and> token a = Some tok \<longrightarrow>
            snd (get_token a (obtained_at tok + 3550) rep t) = snd (authenticate a rep t)
          \<and> snd (snd (get_token a (obtained_at tok + 3550) rep t)) = [token_request a])"
proof -
  have usable: "(\<not> is_expired tok now 60) = (now - obtained_at tok < of_int (expires_in tok) - 60)"
    using assms by (auto simp add: is_expired_iff)
  have boundary: "expires_in tok = 3600 \<longrightarrow> is_expired tok now 60 = (now - obtained_at tok \<ge> 3540)"
    using assms by (simp add: is_expired_iff)
  have scenario: "expires_in tok = 3600 \<and> token a = Some tok \<longrightarrow>
            snd (get_token a (obtained_at tok + 3550) rep t) = snd (authenticate a rep t)
          \<and> snd (snd (get_token a (obtained_at tok + 3550) rep t)) = [token_request a]"
  proof (intro impI, elim conjE)
    assume e: "expires_in tok = 3600" and c: "token a = Some tok"
    have "is_expired tok (obtained_at tok + 3550) 60"
      using assms e by (simp add: is_expired_iff)
    with c have g: "case token a of None \<Rightarrow> True | Some x \<Rightarrow> is_expired x (obtained_at tok + 3550) 60"
      by simp
    show "snd (get_token a (obtained_at tok + 3550) rep t) = snd (authenticate a rep t)
          \<and> snd (snd (get_token a (obtained_at tok + 3550) rep t)) = [token_request a]"
      using get_token_refresh_snd [OF g] authenticate_sent [of a rep t] by simp
  qed
  from usable boundary scenario show ?thesis by blast
qed

theorem token_usable_iff_witness:
  "obtained_at demo_token \<noteq> 0 \<and> expires_in demo_token = 3600 \<and> token demo_auth = Some demo_token
   \<and> \<not> is_expired demo_token 4539 60 \<and> is_expired demo_token 4540 60
   \<and> snd (snd (get_token demo_auth 4550 ok_reply 4551)) = [token_request demo_auth]
   \<and> fst (get_token demo_auth 4550 ok_reply 4551) = Inr (JStr ''tok-2'')"
proof -
  have h: "obtained_at demo_token \<noteq> 0" by (simp add: demo_token_def)
  have e: "expires_in demo_token = 3600" by (simp add: demo_token_def)
  have c: "token demo_auth = Some demo_token" by (simp add: demo_auth_def)
  have o: "obtained_at demo_token + 3550 = 4550" by (simp add: demo_token_def)
  have v: "fst (get_token demo_auth 4550 ok_reply 4551) = Inr (JStr ''tok-2'')"
    by (simp add: get_token_def authenticate_def ok_reply_def raise_for_status_def demo_auth_def
          demo_token_def is_expired_def Let_def sliceable_def)
  show ?thesis
    using token_usable_iff [OF h, of 4539 demo_auth ok_reply 4551]
          token_usable_iff [OF h, of 4540 demo_auth ok_reply 4551] h e c o v
    by (simp add: demo_token_def)
qed


lemma authenticate_installs:
  "\<not> (400 \<le> st \<and> st < 600) \<Longrightarrow> j_access_token d = Some v \<Longrightarrow>
   authenticate a (Reply st txt (Some (Object d))) t =
     (if sliceable v
      then Inr \<lparr>access_token = v,
                 token_type = (case j_token_type d of None \<Rightarrow> JStr ''Bearer'' | Some x \<Rightarrow> x),
                 expires_in = (case j_expires_in d of None \<Rightarrow> 3600 | Some n \<Rightarrow> n),
                 id_token = (case j_id_token d of None \<Rightarrow> JNull | Some x \<Rightarrow> x),
                 obtained_at = t\<rparr>
      else Inl (SliceError v),
      a\<lparr>token := Some \<lparr>access_token = v,
                 token_type = (case j_token_type d of None \<Rightarrow> JStr ''Bearer'' | Some x \<Rightarrow> x),
                 expires_in = (case j_expires_in d of None \<Rightarrow> 3600 | Some n \<Rightarrow> n),
                 id_token = (case j_id_token d of None \<Rightarrow> JNull | Some x \<Rightarrow> x),
                 obtained_at = t\<rparr>\<rparr>,
      [token_request a])"
  by (auto simp add: authenticate_def raise_for_status_def Let_def)

lemma authenticate_NoReply:
  "authenticate a (NoReply m) t = (Inl (RequestException m), a, [token_request a])"
  by (simp add: authenticate_def)

lemma authenticate_error_status:
  "400 \<le> st \<Longrightarrow> st < 600 \<Longrightarrow>
   authenticate a (Reply st txt js) t = (Inl (HTTPError st txt), a, [token_request a])"
  by (simp add: authenticate_def raise_for_status_def)

lemma authenticate_malformed:
  assumes "\<not> (400 \<le> st \<and> st < 600)"
  shows "authenticate a (Reply st txt None) t = (Inl JSONDecodeError, a, [token_request a])"
    and "authenticate a (Reply st txt (Some NonObject)) t
           = (Inl (TypeError ''access_token''), a, [token_request a])"
    and "j_access_token d = None \<Longrightarrow>
         authenticate a (Reply st txt (Some (Object d))) t
           = (Inl (KeyError ''access_token''), a, [token_request a])"
  using assms by (auto simp add: authenticate_def raise_for_status_def)


lemma authenticate_error_state:
  "fst (authenticate a rep t) = Inl e \<Longrightarrow> \<forall>v. e \<noteq> SliceError v \<Longrightarrow>
   fst (snd (authenticate a rep t)) = a"
  by (auto simp add: authenticate_def Let_def
      split: reply.splits option.splits sum.splits body.splits if_splits)

lemma authenticate_replaces_only_on_object:
  "token (fst (snd (authenticate a rep t))) \<noteq> token a \<Longrightarrow>
   \<exists>st txt d v. rep = Reply st txt (Some (Object d)) \<and> \<not> (400 \<le> st \<and> st < 600)
                \<and> j_access_token d = Some v"
  by (auto simp add: authenticate_def Let_def raise_for_status_def
      split: reply.splits option.splits sum.splits body.splits if_splits)

lemma authenticate_ignores_cache:
  "fst (authenticate (a\<lparr>token := x\<rparr>) rep t) = fst (authenticate a rep t)"
  by (simp add: authenticate_def Let_def token_request_def token_endpoint_def
        split: reply.split option.split sum.split body.split)






text \<open>
  C7, as amended.  When the exchange fails, \<open>authenticate\<close> raises the exception of
  that failure; there is no authentication error of its own.  No answer gives the
  \<open>RequestException\<close> of the transport, which has a message and neither status nor
  body; a 4xx or 5xx answer gives \<open>HTTPError\<close> with the status code and the body; a
  body that is not JSON gives \<open>JSONDecodeError\<close>, a JSON body that is not an object
  \<open>TypeError\<close>, an object without \<^verbatim>\<open>access_token\<close> \<open>KeyError\<close>.  In each of these
  cases the cached token is unchanged, so that \<open>get_token\<close> keeps returning it for as
  long as it is not expired.  In every case exactly one request is sent: nothing is
  tried again.  The cached token is replaced only when the platform answers with a
  status outside 4xx and 5xx and a JSON object that has \<^verbatim>\<open>access_token\<close>; when that
  value is a string or a list, \<open>authenticate\<close> returns the new token, which is made of
  the answer and the clock alone, whatever token was cached before.
\<close>

theorem authenticate_failure_keeps_token:
  "authenticate a (NoReply m) t = (Inl (RequestException m), a, [token_request a])
   \<and> (400 \<le> st \<and> st < 600 \<longrightarrow>
        authenticate a (Reply st txt js) t = (Inl (HTTPError st txt), a, [token_request a]))
   \<and> (\<not> (400 \<le> st \<and> st < 600) \<longrightarrow>
        authenticate a (Reply st txt None) t = (Inl JSONDecodeError, a, [token_request a])
      \<and> authenticate a (Reply st txt (Some NonObject)) t
          = (Inl (TypeError ''access_token''), a, [token_request a])
      \<and> (j_access_token d = None \<longrightarrow>
            authenticate a (Reply st txt (Some (Object d))) t
              = (Inl (KeyError ''access_token''), a, [token_request a])))
   \<and> snd (snd (authenticate a rep t)) = [token_request a]
   \<and> (\<forall>e. fst (authenticate a rep t) = Inl e \<and> (\<forall>v. e \<noteq> SliceError v) \<longrightarrow>
          fst (snd (authenticate a rep t)) = a
        \<and> (\<forall>old now' rep' t'. token a = Some old \<and> \<not> is_expired old now' 60 \<longrightarrow>
              get_token (fst (snd (authenticate a rep t))) now' rep' t'
                = (Inr (access_token old), a, [])))
   \<and> (token (fst (snd (authenticate a rep t))) \<noteq> token a \<longrightarrow>
        (\<exists>st' txt' d' v. rep = Reply st' txt' (Some (Object d')) \<and> \<not> (400 \<le> st' \<and> st' < 600)
                         \<and> j_access_token d' = Some v))
   \<and> (\<forall>v. \<not> (400 \<le> st \<and> st < 600) \<and> j_access_token d = Some v \<and> sliceable v \<longrightarrow>
          (\<forall>x. authenticate (a\<lparr>token := x\<rparr>) (Reply st txt (Some (Object d))) t =
            (Inr \<lparr>access_token = v,
                   token_type = (case j_token_type d of None \<Rightarrow> JStr ''Bearer'' | Some y \<Rightarrow> y),
                   expires_in = (case j_expires_in d of None \<Rightarrow> 3600 | Some n \<Rightarrow> n),
                   id_token = (case j_id_token d of None \<Rightarrow> JNull | Some y \<Rightarrow> y),
                   obtained_at = t\<rparr>,
             a\<lparr>token := Some \<lparr>access_token = v,
                   token_type = (case j_token_type d of None \<Rightarrow> JStr ''Bearer'' | Some y \<Rightarrow> y),
                   expires_in = (case j_expires_in d of None \<Rightarrow> 3600 | Some n \<Rightarrow> n),
                   id_token = (case j_id_token d of None \<Rightarrow> JNull | Some y \<Rightarrow> y),
                   obtained_at = t\<rparr>\<rparr>,
             [token_request a])))"
proof -
  have c1: "authenticate a (NoReply m) t = (Inl (RequestException m), a, [token_request a])"
    by (rule authenticate_NoReply)
  have c2: "400 \<le> st \<and> st < 600 \<longrightarrow>
        authenticate a (Reply st txt js) t = (Inl (HTTPError st txt), a, [token_request a])"
    by (simp add: authenticate_error_status)
  have c3: "\<not> (400 \<le> st \<and> st < 600) \<longrightarrow>
        authenticate a (Reply st txt None) t = (Inl JSONDecodeError, a, [token_request a])
      \<and> authenticate a (Reply st txt (Some NonObject)) t
          = (Inl (TypeError ''access_token''), a, [token_request a])
      \<and> (j_access_token d = None \<longrightarrow>
            authenticate a (Reply st txt (Some (Object d))) t
              = (Inl (KeyError ''access_token''), a, [token_request a]))"
    by (simp add: authenticate_malformed)
  have c4: "snd (snd (authenticate a rep t)) = [token_request a]"
    by (rule authenticate_sent)
  have c5: "\<forall>e. fst (authenticate a rep t) = Inl e \<and> (\<forall>v. e \<noteq> SliceError v) \<longrightarrow>
          fst (snd (authenticate a rep t)) = a
        \<and> (\<forall>old now' rep' t'. token a = Some old \<and> \<not> is_expired old now' 60 \<longrightarrow>
              get_token (fst (snd (authenticate a rep t))) now' rep' t'
                = (Inr (access_token old), a, []))"
  proof (intro allI impI, elim conjE)
    fix e assume f: "fst (authenticate a rep t) = Inl e" and n: "\<forall>v. e \<noteq> SliceError v"
    have u: "fst (snd (authenticate a rep t)) = a"
      by (rule authenticate_error_state [OF f n])
    show "fst (snd (authenticate a rep t)) = a
        \<and> (\<forall>old now' rep' t'. token a = Some old \<and> \<not> is_expired old now' 60 \<longrightarrow>
              get_token (fst (snd (authenticate a rep t))) now' rep' t'
                = (Inr (access_token old), a, []))"
      using u by (simp add: get_token_cached)
  qed
  have c6: "token (fst (snd (authenticate a rep t))) \<noteq> token a \<longrightarrow>
        (\<exists>st' txt' d' v. rep = Reply st' txt' (Some (Object d')) \<and> \<not> (400 \<le> st' \<and> st' < 600)
                         \<and> j_access_token d' = Some v)"
    using authenticate_replaces_only_on_object [of a rep t] by blast
  have c7: "\<forall>v. \<not> (400 \<le> st \<and> st < 600) \<and> j_access_token d = Some v \<and> sliceable v \<longrightarrow>
          (\<forall>x. authenticate (a\<lparr>token := x\<rparr>) (Reply st txt (Some (Object d))) t =
            (Inr \<lparr>access_token = v,
                   token_type = (case j_token_type d of None \<Rightarrow> JStr ''Bearer'' | Some y \<Rightarrow> y),
                   expires_in = (case j_expires_in d of None \<Rightarrow> 3600 | Some n \<Rightarrow> n),
                   id_token = (case j_id_token d of None \<Rightarrow> JNull | Some y \<Rightarrow> y),
                   obtained_at = t\<rparr>,
             a\<lparr>token := Some \<lparr>access_token = v,
                   token_type = (case j_token_type d of None \<Rightarrow> JStr ''Bearer'' | Some y \<Rightarrow> y),
                   expires_in = (case j_expires_in d of None \<Rightarrow> 3600 | Some n \<Rightarrow> n),
                   id_token = (case j_id_token d of None \<Rightarrow> JNull | Some y \<Rightarrow> y),
                   obtained_at = t\<rparr>\<rparr>,
             [token_request a]))"
    by (simp add: authenticate_installs token_request_def token_endpoint_def)
  show ?thesis
    by (intro conjI c1 c2 c3 c4 c5 c6 c7)
qed

theorem authenticate_failure_keeps_token_witness:
  "(400::nat) \<le> 401 \<and> (401::nat) < 600
   \<and> authenticate demo_auth (Reply 401 ''invalid_client'' None) 3000
       = (Inl (HTTPError 401 ''invalid_client''), demo_auth, [token_request demo_auth])
   \<and> token demo_auth = Some demo_token \<and> \<not> is_expired demo_token 3000 60
   \<and> get_token (fst (snd (authenticate demo_auth (Reply 401 ''invalid_client'' None) 3000)))
        3000 ok_reply 3001 = (Inr (JStr ''tok-1''), demo_auth, [])
   \<and> \<not> ((400::nat) \<le> 200 \<and> (200::nat) < 600)
   \<and> authenticate demo_auth (Reply 200 [] (Some NonObject)) 3000
       = (Inl (TypeError ''access_token''), demo_auth, [token_request demo_auth])
   \<and> j_access_token \<lparr>j_access_token = None, j_token_type = None, j_expires_in = None,
                        j_id_token = None\<rparr> = None
   \<and> authenticate demo_auth
        (Reply 200 [] (Some (Object \<lparr>j_access_token = None, j_token_type = None,
                                         j_expires_in = None, j_id_token = None\<rparr>))) 3000
       = (Inl (KeyError ''access_token''), demo_auth, [token_request demo_auth])
   \<and> sliceable (JStr ''tok-2'')
   \<and> authenticate demo_auth ok_reply 3000
       = (Inr \<lparr>access_token = JStr ''tok-2'', token_type = JStr ''Bearer'', expires_in = 3600,
                id_token = JNull, obtained_at = 3000\<rparr>,
          demo_auth\<lparr>token := Some \<lparr>access_token = JStr ''tok-2'', token_type = JStr ''Bearer'',
                                     expires_in = 3600, id_token = JNull, obtained_at = 3000\<rparr>\<rparr>,
          [token_request demo_auth])
   \<and> token (fst (snd (authenticate demo_auth ok_reply 3000))) \<noteq> token demo_auth"
proof -
  have s4: "(400::nat) \<le> 401 \<and> (401::nat) < 600" by simp
  have s2: "\<not> ((400::nat) \<le> 200 \<and> (200::nat) < 600)" by simp
  have c: "token demo_auth = Some demo_token" by (simp add: demo_auth_def)
  have v: "\<not> is_expired demo_token 3000 60" by (simp add: is_expired_def demo_token_def)
  have sl: "sliceable (JStr ''tok-2'')" by (simp add: sliceable_def)
  note A = authenticate_failure_keeps_token
             [of demo_auth "''x''" 3000 401 "''invalid_client''" None
                 "\<lparr>j_access_token = None, j_token_type = None, j_expires_in = None, j_id_token = None\<rparr>"
                 "Reply 401 ''invalid_client'' None"]
  note B = authenticate_failure_keeps_token
             [of demo_auth "''x''" 3000 200 "[]" None
                 "\<lparr>j_access_token = Some (JStr ''tok-2''), j_token_type = None,
                   j_expires_in = Some 3600, j_id_token = None\<rparr>"
                 ok_reply]
  have a2: "authenticate demo_auth (Reply 401 ''invalid_client'' None) 3000
       = (Inl (HTTPError 401 ''invalid_client''), demo_auth, [token_request demo_auth])"
    by (rule A [THEN conjunct2, THEN conjunct1, rule_format, OF s4])
  have f: "fst (authenticate demo_auth (Reply 401 ''invalid_client'' None) 3000)
             = Inl (HTTPError 401 ''invalid_client'') \<and> (\<forall>v. HTTPError 401 ''invalid_client'' \<noteq> SliceError v)"
    using a2 by simp
  note A5 = A [THEN conjunct2, THEN conjunct2, THEN conjunct2, THEN conjunct2, THEN conjunct1,
               rule_format, OF f]
  have a5: "get_token (fst (snd (authenticate demo_auth (Reply 401 ''invalid_client'' None) 3000)))
        3000 ok_reply 3001 = (Inr (JStr ''tok-1''), demo_auth, [])"
    using A5 [THEN conjunct2, rule_format, OF conjI, OF c v, of ok_reply 3001]
    by (simp add: demo_token_def)
  have b3: "authenticate demo_auth (Reply 200 [] (Some NonObject)) 3000
       = (Inl (TypeError ''access_token''), demo_auth, [token_request demo_auth])"
    by (rule B [THEN conjunct2, THEN conjunct2, THEN conjunct1, rule_format, OF s2,
                THEN conjunct2, THEN conjunct1])
  note C = authenticate_failure_keeps_token
             [of demo_auth "''x''" 3000 200 "[]" None
                 "\<lparr>j_access_token = None, j_token_type = None, j_expires_in = None, j_id_token = None\<rparr>"
                 ok_reply]
  have k0: "j_access_token \<lparr>j_access_token = None, j_token_type = None, j_expires_in = None,
                        j_id_token = None\<rparr> = None"
    by simp
  have c3: "authenticate demo_auth
        (Reply 200 [] (Some (Object \<lparr>j_access_token = None, j_token_type = None,
                                         j_expires_in = None, j_id_token = None\<rparr>))) 3000
       = (Inl (KeyError ''access_token''), demo_auth, [token_request demo_auth])"
    by (rule C [THEN conjunct2, THEN conjunct2, THEN conjunct1, rule_format, OF s2,
                THEN conjunct2, THEN conjunct2, rule_format, OF k0])
  have p: "\<not> ((400::nat) \<le> 200 \<and> (200::nat) < 600)
           \<and> j_access_token \<lparr>j_access_token = Some (JStr ''tok-2''), j_token_type = None,
                   j_expires_in = Some 3600, j_id_token = None\<rparr> = Some (JStr ''tok-2'')
           \<and> sliceable (JStr ''tok-2'')"
    using sl by simp
  note B7 = B [THEN conjunct2, THEN conjunct2, THEN conjunct2, THEN conjunct2, THEN conjunct2,
               THEN conjunct2, rule_format, OF p, of "Some demo_token"]
  have d: "demo_auth\<lparr>token := Some demo_token\<rparr> = demo_auth" by (simp add: demo_auth_def)
  have b7: "authenticate demo_auth ok_reply 3000
       = (Inr \<lparr>access_token = JStr ''tok-2'', token_type = JStr ''Bearer'', expires_in = 3600,
                id_token = JNull, obtained_at = 3000\<rparr>,
          demo_auth\<lparr>token := Some \<lparr>access_token = JStr ''tok-2'', token_type = JStr ''Bearer'',
                                     expires_in = 3600, id_token = JNull, obtained_at = 3000\<rparr>\<rparr>,
          [token_request demo_auth])"
    using B7 by (simp add: d ok_reply_def)
  have b8: "token (fst (snd (authenticate demo_auth ok_reply 3000))) \<noteq> token demo_auth"
    by (simp add: b7 c demo_token_def)
  show ?thesis
    by (intro conjI s4 [THEN conjunct1] s4 [THEN conjunct2] a2 c v a5 s2 b3 k0 c3 sl b7 b8)
qed

text \<open>
  The statement of C7 before the amendment fails in two ways.  When no answer arrives,
  the exception raised is the \<open>RequestException\<close> of the transport, which carries a
  message and neither a status nor a body.  And when the platform answers 200 with an
  object whose \<^verbatim>\<open>access_token\<close> is \<^verbatim>\<open>null\<close>, \<open>authenticate\<close> raises while the cached
  token has already been replaced by the new one.
\<close>

theorem authenticate_failure_counterexample:
  "authenticate demo_auth (NoReply ''timed out'') 3000
     = (Inl (RequestException ''timed out''), demo_auth, [token_request demo_auth])
   \<and> token demo_auth = Some demo_token
   \<and> authenticate demo_auth null_reply 3000
       = (Inl (SliceError JNull),
          demo_auth\<lparr>token := Some \<lparr>access_token = JNull, token_type = JStr ''Bearer'',
                                     expires_in = 3600, id_token = JNull, obtained_at = 3000\<rparr>\<rparr>,
          [token_request demo_auth])
   \<and> Some \<lparr>access_token = JNull, token_type = JStr ''Bearer'', expires_in = 3600,
            id_token = JNull, obtained_at = 3000\<rparr> \<noteq> Some demo_token"
  by (simp add: authenticate_def null_reply_def raise_for_status_def Let_def sliceable_def
        demo_auth_def demo_token_def)

section \<open>Callers that share the token\<close>








section \<open>The pass store\<close>

lemma Mock_suspend_pass_known:
  "passes m pid = Some p \<Longrightarrow>
   Mock_suspend_pass m pid =
     (Inr (p\<lparr>status := SUSPENDED\<rparr>), m\<lparr>passes := (passes m)(pid \<mapsto> p\<lparr>status := SUSPENDED\<rparr>)\<rparr>)"
  by (simp add: Mock_suspend_pass_def)

lemma Mock_resume_pass_known:
  "passes m pid = Some p \<Longrightarrow>
   Mock_resume_pass m pid =
     (Inr (p\<lparr>status := ACTIVE\<rparr>), m\<lparr>passes := (passes m)(pid \<mapsto> p\<lparr>status := ACTIVE\<rparr>)\<rparr>)"
  by (simp add: Mock_resume_pass_def)

lemma Mock_suspend_pass_twice:
  "passes m pid = Some p \<Longrightarrow>
   Mock_suspend_pass (snd (Mock_suspend_pass m pid)) pid = Mock_suspend_pass m pid"
  by (simp add: Mock_suspend_pass_def)

lemma Mock_resume_pass_twice:
  "passes m pid = Some p \<Longrightarrow>
   Mock_resume_pass (snd (Mock_resume_pass m pid)) pid = Mock_resume_pass m pid"
  by (simp add: Mock_resume_pass_def)

text \<open>
  C3, as amended.  In the in-memory store, for every pass that is present and every
  state it is in, \<open>suspend_pass\<close> succeeds and leaves the pass SUSPENDED, and
  \<open>resume_pass\<close> succeeds and leaves it ACTIVE; nothing else of the pass or of the store
  changes, and repeating the operation gives the same result and the same store.  No
  starting state is refused.  The only failure is an unknown pass id: \<open>ValueError\<close>
  with the message \<^verbatim>\<open>Pass not found: <id>\<close>, the store unchanged.
\<close>

theorem suspend_resume_from_any_state:
  "(\<forall>p. passes m pid = Some p \<longrightarrow>
        Mock_suspend_pass m pid =
          (Inr (p\<lparr>status := SUSPENDED\<rparr>),
           m\<lparr>passes := (passes m)(pid \<mapsto> p\<lparr>status := SUSPENDED\<rparr>)\<rparr>)
      \<and> Mock_resume_pass m pid =
          (Inr (p\<lparr>status := ACTIVE\<rparr>),
           m\<lparr>passes := (passes m)(pid \<mapsto> p\<lparr>status := ACTIVE\<rparr>)\<rparr>)
      \<and> Mock_suspend_pass (snd (Mock_suspend_pass m pid)) pid = Mock_suspend_pass m pid
      \<and> Mock_resume_pass (snd (Mock_resume_pass m pid)) pid = Mock_resume_pass m pid)
   \<and> (passes m pid = None \<longrightarrow>
        Mock_suspend_pass m pid = (Inl (ValueError (''Pass not found: '' @ pid)), m)
      \<and> Mock_resume_pass m pid = (Inl (ValueError (''Pass not found: '' @ pid)), m))"
proof -
  have known: "\<forall>p. passes m pid = Some p \<longrightarrow>
        Mock_suspend_pass m pid =
          (Inr (p\<lparr>status := SUSPENDED\<rparr>),
           m\<lparr>passes := (passes m)(pid \<mapsto> p\<lparr>status := SUSPENDED\<rparr>)\<rparr>)
      \<and> Mock_resume_pass m pid =
          (Inr (p\<lparr>status := ACTIVE\<rparr>),
           m\<lparr>passes := (passes m)(pid \<mapsto> p\<lparr>status := ACTIVE\<rparr>)\<rparr>)
      \<and> Mock_suspend_pass (snd (Mock_suspend_pass m pid)) pid = Mock_suspend_pass m pid
      \<and> Mock_resume_pass (snd (Mock_resume_pass m pid)) pid = Mock_resume_pass m pid"
    using Mock_suspend_pass_known Mock_resume_pass_known Mock_suspend_pass_twice
      Mock_resume_pass_twice by blast
  have unknown: "passes m pid = None \<longrightarrow>
        Mock_suspend_pass m pid = (Inl (ValueError (''Pass not found: '' @ pid)), m)
      \<and> Mock_resume_pass m pid = (Inl (ValueError (''Pass not found: '' @ pid)), m)"
    by (simp add: Mock_suspend_pass_def Mock_resume_pass_def)
  from known unknown show ?thesis by blast
qed

theorem suspend_resume_from_any_state_witness:
  "passes demo_store ''pass-0123456789ab'' = Some demo_pass \<and> status demo_pass = PENDING
   \<and> fst (Mock_suspend_pass demo_store ''pass-0123456789ab'') = Inr (demo_pass\<lparr>status := SUSPENDED\<rparr>)
   \<and> fst (Mock_resume_pass demo_store ''pass-0123456789ab'') = Inr (demo_pass\<lparr>status := ACTIVE\<rparr>)
   \<and> passes demo_store ''pass-unknown'' = None
   \<and> Mock_suspend_pass demo_store ''pass-unknown''
       = (Inl (ValueError ''Pass not found: pass-unknown''), demo_store)"
proof -
  have k: "passes demo_store ''pass-0123456789ab'' = Some demo_pass" by (simp add: demo_store_def)
  have u: "passes demo_store ''pass-unknown'' = None" by (simp add: demo_store_def)
  have s: "status demo_pass = PENDING" by (simp add: demo_pass_def)
  show ?thesis
    using suspend_resume_from_any_state [of demo_store "''pass-0123456789ab''"]
          suspend_resume_from_any_state [of demo_store "''pass-unknown''"] k u s
    by simp
qed

text \<open>
  The statement of C3 before the amendment, that \<open>resume_pass\<close> on a PENDING pass
  signals an invalid transition and does not change the state, fails: the pass of the
  demonstration is PENDING, and \<open>resume_pass\<close> returns it ACTIVE and stores it so.
\<close>

theorem resume_pending_counterexample:
  "status demo_pass = PENDING
   \<and> passes demo_store ''pass-0123456789ab'' = Some demo_pass
   \<and> fst (Mock_resume_pass demo_store ''pass-0123456789ab'') = Inr (demo_pass\<lparr>status := ACTIVE\<rparr>)
   \<and> passes (snd (Mock_resume_pass demo_store ''pass-0123456789ab'')) ''pass-0123456789ab''
       = Some (demo_pass\<lparr>status := ACTIVE\<rparr>)
   \<and> status (demo_pass\<lparr>status := ACTIVE\<rparr>) = ACTIVE"
  by (simp add: Mock_resume_pass_def demo_store_def demo_pass_def)

lemma Mock_delete_pass_eq:
  "Mock_delete_pass m pid = (Inr True, m\<lparr>passes := (passes m)(pid := None)\<rparr>)"
proof (cases "passes m pid")
  case None
  then have "(passes m)(pid := None) = passes m" by (simp add: fun_upd_idem)
  with None show ?thesis by (simp add: Mock_delete_pass_def)
next
  case (Some p)
  then show ?thesis by (simp add: Mock_delete_pass_def)
qed

lemma delete_pass_headers_ok:
  "get_headers (auth api) ''acme-mobile-access'' ''1.0.0'' now rep_auth t = (Inr hs, a', sent) \<Longrightarrow>
   fst (delete_pass api pid now rep_auth t rep) =
     (case rep of
        NoReply m \<Rightarrow> Inl (RequestException m)
      | Reply st txt js \<Rightarrow> if 400 \<le> st \<and> st < 600 then Inl (HTTPError st txt) else Inr True)"
  by (cases rep) (simp_all add: delete_pass_def raise_for_status_def Let_def)

lemma delete_pass_headers_error:
  "get_headers (auth api) ''acme-mobile-access'' ''1.0.0'' now rep_auth t = (Inl e, a', sent) \<Longrightarrow>
   fst (delete_pass api pid now rep_auth t rep) = Inl e"
  by (simp add: delete_pass_def)

text \<open>
  C4, as amended.  In the in-memory store \<open>delete_pass\<close> returns success for every
  pass id, known or not: afterwards the pass is absent, every other pass is as before,
  an absent id leaves the store as it was, and deleting again succeeds again.  The
  client that talks to the platform returns success only when the platform answers the
  DELETE request with a status outside 4xx and 5xx; such a status is raised as
  \<open>HTTPError\<close>, a missing answer as \<open>RequestException\<close>, and a failure to obtain the
  headers is raised before the request is sent.
\<close>

theorem delete_pass_outcomes:
  "Mock_delete_pass m pid = (Inr True, m\<lparr>passes := (passes m)(pid := None)\<rparr>)
   \<and> passes (snd (Mock_delete_pass m pid)) pid = None
   \<and> (\<forall>q. q \<noteq> pid \<longrightarrow> passes (snd (Mock_delete_pass m pid)) q = passes m q)
   \<and> (passes m pid = None \<longrightarrow> Mock_delete_pass m pid = (Inr True, m))
   \<and> Mock_delete_pass (snd (Mock_delete_pass m pid)) pid = (Inr True, snd (Mock_delete_pass m pid))
   \<and> (\<forall>hs. fst (get_headers (auth api) ''acme-mobile-access'' ''1.0.0'' now rep_auth t) = Inr hs \<longrightarrow>
          fst (delete_pass api pid now rep_auth t rep) =
            (case rep of
               NoReply msg \<Rightarrow> Inl (RequestException msg)
             | Reply st txt js \<Rightarrow> if 400 \<le> st \<and> st < 600 then Inl (HTTPError st txt) else Inr True))
   \<and> (\<forall>e. fst (get_headers (auth api) ''acme-mobile-access'' ''1.0.0'' now rep_auth t) = Inl e \<longrightarrow>
          fst (delete_pass api pid now rep_auth t rep) = Inl e)"
proof -
  have c1: "Mock_delete_pass m pid = (Inr True, m\<lparr>passes := (passes m)(pid := None)\<rparr>)"
    by (rule Mock_delete_pass_eq)
  have c2: "passes (snd (Mock_delete_pass m pid)) pid = None"
    by (simp add: Mock_delete_pass_eq)
  have c3: "\<forall>q. q \<noteq> pid \<longrightarrow> passes (snd (Mock_delete_pass m pid)) q = passes m q"
    by (simp add: Mock_delete_pass_eq)
  have c4: "passes m pid = None \<longrightarrow> Mock_delete_pass m pid = (Inr True, m)"
    by (simp add: Mock_delete_pass_def)
  have c5: "Mock_delete_pass (snd (Mock_delete_pass m pid)) pid = (Inr True, snd (Mock_delete_pass m pid))"
    by (simp add: Mock_delete_pass_eq)
  have c6: "\<forall>hs. fst (get_headers (auth api) ''acme-mobile-access'' ''1.0.0'' now rep_auth t) = Inr hs \<longrightarrow>
          fst (delete_pass api pid now rep_auth t rep) =
            (case rep of
               NoReply msg \<Rightarrow> Inl (RequestException msg)
             | Reply st txt js \<Rightarrow> if 400 \<le> st \<and> st < 600 then Inl (HTTPError st txt) else Inr True)"
    by (cases "get_headers (auth api) ''acme-mobile-access'' ''1.0.0'' now rep_auth t")
       (auto simp add: delete_pass_headers_ok)
  have c7: "\<forall>e. fst (get_headers (auth api) ''acme-mobile-access'' ''1.0.0'' now rep_auth t) = Inl e \<longrightarrow>
          fst (delete_pass api pid now rep_auth t rep) = Inl e"
    by (cases "get_headers (auth api) ''acme-mobile-access'' ''1.0.0'' now rep_auth t")
       (auto simp add: delete_pass_headers_error)
  from c1 c2 c3 c4 c5 c6 c7 show ?thesis by blast
qed

theorem delete_pass_outcomes_witness:
  "passes demo_store ''pass-unknown'' = None
   \<and> Mock_delete_pass demo_store ''pass-unknown'' = (Inr True, demo_store)
   \<and> ''pass-0123456789ab'' \<noteq> ''pass-unknown''
   \<and> passes (snd (Mock_delete_pass demo_store ''pass-unknown'')) ''pass-0123456789ab'' = Some demo_pass
   \<and> fst (Mock_delete_pass demo_store ''pass-0123456789ab'') = Inr True
   \<and> passes (snd (Mock_delete_pass demo_store ''pass-0123456789ab'')) ''pass-0123456789ab'' = None
   \<and> fst (get_headers (auth demo_api) ''acme-mobile-access'' ''1.0.0'' 2000 ok_reply 2001)
       = Inr [(''Authorization'', Bearer (JStr ''tok-1'')), (''Application-ID'', Plain ''acme-mobile-access''),
              (''Application-Version'', Plain ''1.0.0''), (''Content-Type'', Plain ''application/json'')]
   \<and> fst (delete_pass demo_api ''pass-unknown'' 2000 ok_reply 2001 (Reply 204 [] (None :: unit option)))
       = Inr True
   \<and> fst (get_headers (auth demo_api) ''acme-mobile-access'' ''1.0.0'' 5000 (NoReply ''timed out'') 5001)
       = Inl (RequestException ''timed out'')
   \<and> fst (delete_pass demo_api ''pass-0123456789ab'' 5000 (NoReply ''timed out'') 5001
            (Reply 204 [] (None :: unit option)))
       = Inl (RequestException ''timed out'')"
proof -
  have u: "passes demo_store ''pass-unknown'' = None" by (simp add: demo_store_def)
  have k: "passes demo_store ''pass-0123456789ab'' = Some demo_pass" by (simp add: demo_store_def)
  have h: "fst (get_headers (auth demo_api) ''acme-mobile-access'' ''1.0.0'' 2000 ok_reply 2001)
       = Inr [(''Authorization'', Bearer (JStr ''tok-1'')), (''Application-ID'', Plain ''acme-mobile-access''),
              (''Application-Version'', Plain ''1.0.0''), (''Content-Type'', Plain ''application/json'')]"
    by (simp add: get_headers_def get_token_def demo_api_def demo_auth_def demo_token_def
          is_expired_def)
  have g: "fst (get_headers (auth demo_api) ''acme-mobile-access'' ''1.0.0'' 5000 (NoReply ''timed out'') 5001)
       = Inl (RequestException ''timed out'')"
    by (simp add: get_headers_def get_token_def demo_api_def demo_auth_def demo_token_def
          is_expired_def authenticate_def)
  have d: "''pass-0123456789ab'' \<noteq> ''pass-unknown''" by simp
  note A = delete_pass_outcomes [of demo_store "''pass-unknown''" demo_api 2000 ok_reply 2001
            "Reply 204 [] (None :: unit option)"]
  note B = delete_pass_outcomes [of demo_store "''pass-0123456789ab''" demo_api 5000
            "NoReply ''timed out''" 5001 "Reply 204 [] (None :: unit option)"]
  note A3 = A [THEN conjunct2, THEN conjunct2, THEN conjunct1]
  note A4 = A [THEN conjunct2, THEN conjunct2, THEN conjunct2, THEN conjunct1]
  note A6 = A [THEN conjunct2, THEN conjunct2, THEN conjunct2, THEN conjunct2, THEN conjunct2,
               THEN conjunct1]
  note B1 = B [THEN conjunct1]
  note B2 = B [THEN conjunct2, THEN conjunct1]
  note B7 = B [THEN conjunct2, THEN conjunct2, THEN conjunct2, THEN conjunct2, THEN conjunct2,
               THEN conjunct2]
  have a1: "Mock_delete_pass demo_store ''pass-unknown'' = (Inr True, demo_store)"
    by (rule A4 [rule_format, OF u])
  have "passes (snd (Mock_delete_pass demo_store ''pass-unknown'')) ''pass-0123456789ab''
          = passes demo_store ''pass-0123456789ab''"
    by (rule A3 [rule_format, OF d])
  with k have a2: "passes (snd (Mock_delete_pass demo_store ''pass-unknown'')) ''pass-0123456789ab''
                   = Some demo_pass"
    by simp
  have a3: "fst (delete_pass demo_api ''pass-unknown'' 2000 ok_reply 2001
                   (Reply 204 [] (None :: unit option))) = Inr True"
    using A6 [rule_format, OF h] by simp
  have b1: "fst (Mock_delete_pass demo_store ''pass-0123456789ab'') = Inr True"
    by (simp only: B1 fst_conv)
  have b2: "passes (snd (Mock_delete_pass demo_store ''pass-0123456789ab'')) ''pass-0123456789ab'' = None"
    by (rule B2)
  have b3: "fst (delete_pass demo_api ''pass-0123456789ab'' 5000 (NoReply ''timed out'') 5001
            (Reply 204 [] (None :: unit option))) = Inl (RequestException ''timed out'')"
    by (rule B7 [rule_format, OF g])
  show ?thesis
    by (intro conjI u a1 d a2 b1 b2 h a3 g b3)
qed

text \<open>
  The statement of C4 before the amendment, that \<open>delete_pass\<close> succeeds for every pass
  id and never raises for an unknown one, fails for the client that talks to the
  platform: with a valid cached token, when the platform answers 404 to the DELETE
  request for an id it does not know, \<open>delete_pass\<close> raises \<open>HTTPError\<close> 404.
\<close>

theorem delete_pass_unknown_id_counterexample:
  "fst (delete_pass demo_api ''pass-unknown'' 2000 ok_reply 2001
          (Reply 404 ''Not Found'' (None :: unit option))) = Inl (HTTPError 404 ''Not Found'')"
  by (simp add: delete_pass_def get_headers_def get_token_def demo_api_def demo_auth_def
        demo_token_def is_expired_def raise_for_status_def Let_def)

section \<open>Callback registration\<close>

lemma to_dict_keys:
  "map fst (CallbackRegistration_to_dict r) =
     (if (\<exists>h s. http_header r = Some h \<and> secret r = Some s \<and> h \<noteq> [] \<and> s \<noteq> [])
      then [''url'', ''filter'', ''httpHeader'', ''secret'']
      else [''url'', ''filter''])"
  by (simp add: CallbackRegistration_to_dict_def split: option.split)

lemma to_dict_unpaired:
  "(http_header r = None) \<noteq> (secret r = None) \<Longrightarrow>
   CallbackRegistration_to_dict r =
     [(''url'', JStr (url r)), (''filter'', JObj (EventFilter_to_dict (filter_reg r)))]"
  by (auto simp add: CallbackRegistration_to_dict_def split: option.split)

text \<open>
  C10.  The payload \<open>to_dict\<close> builds for a registration contains the key
  \<^verbatim>\<open>httpHeader\<close> exactly when it contains the key \<^verbatim>\<open>secret\<close>, and that is exactly when
  both \<open>http_header\<close> and \<open>secret\<close> are present and not empty; the values are then
  the ones of the registration.  When exactly one of the two is set, the payload is the
  two items \<^verbatim>\<open>url\<close> and \<^verbatim>\<open>filter\<close> alone: the unpaired value is left out, and
  nothing is raised.
\<close>

theorem to_dict_header_secret_paired:
  "(''httpHeader'' \<in> fst ` set (CallbackRegistration_to_dict r))
     = (''secret'' \<in> fst ` set (CallbackRegistration_to_dict r))
   \<and> (''httpHeader'' \<in> fst ` set (CallbackRegistration_to_dict r))
     = (\<exists>h s. http_header r = Some h \<and> secret r = Some s \<and> h \<noteq> [] \<and> s \<noteq> [])
   \<and> (\<forall>h s. http_header r = Some h \<and> secret r = Some s \<and> h \<noteq> [] \<and> s \<noteq> [] \<longrightarrow>
          map_of (CallbackRegistration_to_dict r) ''httpHeader'' = Some (JStr h)
        \<and> map_of (CallbackRegistration_to_dict r) ''secret'' = Some (JStr s))
   \<and> ((http_header r = None) \<noteq> (secret r = None) \<longrightarrow>
          ''httpHeader'' \<notin> fst ` set (CallbackRegistration_to_dict r)
        \<and> ''secret'' \<notin> fst ` set (CallbackRegistration_to_dict r)
        \<and> CallbackRegistration_to_dict r =
            [(''url'', JStr (url r)), (''filter'', JObj (EventFilter_to_dict (filter_reg r)))])"
proof -
  have keys: "fst ` set (CallbackRegistration_to_dict r) = set (map fst (CallbackRegistration_to_dict r))"
    by simp
  have c1: "(''httpHeader'' \<in> fst ` set (CallbackRegistration_to_dict r))
     = (''secret'' \<in> fst ` set (CallbackRegistration_to_dict r))"
    unfolding keys to_dict_keys by simp
  have c2: "(''httpHeader'' \<in> fst ` set (CallbackRegistration_to_dict r))
     = (\<exists>h s. http_header r = Some h \<and> secret r = Some s \<and> h \<noteq> [] \<and> s \<noteq> [])"
    unfolding keys to_dict_keys by simp
  have c3: "\<forall>h s. http_header r = Some h \<and> secret r = Some s \<and> h \<noteq> [] \<and> s \<noteq> [] \<longrightarrow>
          map_of (CallbackRegistration_to_dict r) ''httpHeader'' = Some (JStr h)
        \<and> map_of (CallbackRegistration_to_dict r) ''secret'' = Some (JStr s)"
    by (simp add: CallbackRegistration_to_dict_def)
  have c4: "(http_header r = None) \<noteq> (secret r = None) \<longrightarrow>
          ''httpHeader'' \<notin> fst ` set (CallbackRegistration_to_dict r)
        \<and> ''secret'' \<notin> fst ` set (CallbackRegistration_to_dict r)
        \<and> CallbackRegistration_to_dict r =
            [(''url'', JStr (url r)), (''filter'', JObj (EventFilter_to_dict (filter_reg r)))]"
  proof
    assume u: "(http_header r = None) \<noteq> (secret r = None)"
    show "''httpHeader'' \<notin> fst ` set (CallbackRegistration_to_dict r)
        \<and> ''secret'' \<notin> fst ` set (CallbackRegistration_to_dict r)
        \<and> CallbackRegistration_to_dict r =
            [(''url'', JStr (url r)), (''filter'', JObj (EventFilter_to_dict (filter_reg r)))]"
      by (simp add: to_dict_unpaired [OF u])
  qed
  show ?thesis
    by (intro conjI c1 c2 c3 c4)
qed

theorem to_dict_header_secret_paired_witness:
  "(http_header unpaired_registration = None) \<noteq> (secret unpaired_registration = None)
   \<and> CallbackRegistration_to_dict unpaired_registration =
       [(''url'', JStr ''http://acme.com/webhooks/origo''),
        (''filter'', JObj [(''eventTypes'',
            JArr [JStr ''USER_CREATED'', JStr ''USER_UPDATED'', JStr ''USER_DELETED''])])]
   \<and> ''httpHeader'' \<notin> fst ` set (CallbackRegistration_to_dict unpaired_registration)
   \<and> http_header (unpaired_registration\<lparr>secret := Some ''Bearer my-secret-token''\<rparr>) = Some ''Authorization''
   \<and> map_of (CallbackRegistration_to_dict (unpaired_registration\<lparr>secret := Some ''Bearer my-secret-token''\<rparr>))
        ''secret'' = Some (JStr ''Bearer my-secret-token'')"
proof -
  have u: "(http_header unpaired_registration = None) \<noteq> (secret unpaired_registration = None)"
    by (simp add: unpaired_registration_def)
  have p: "http_header (unpaired_registration\<lparr>secret := Some ''Bearer my-secret-token''\<rparr>) = Some ''Authorization''
         \<and> secret (unpaired_registration\<lparr>secret := Some ''Bearer my-secret-token''\<rparr>) = Some ''Bearer my-secret-token''
         \<and> ''Authorization'' \<noteq> [] \<and> ''Bearer my-secret-token'' \<noteq> []"
    by (simp add: unpaired_registration_def)
  note A = to_dict_header_secret_paired [of unpaired_registration]
  note B = to_dict_header_secret_paired
             [of "unpaired_registration\<lparr>secret := Some ''Bearer my-secret-token''\<rparr>"]
  note A4 = A [THEN conjunct2, THEN conjunct2, THEN conjunct2, rule_format, OF u]
  note B3 = B [THEN conjunct2, THEN conjunct2, THEN conjunct1, rule_format, OF p]
  have a1: "CallbackRegistration_to_dict unpaired_registration =
       [(''url'', JStr ''http://acme.com/webhooks/origo''),
        (''filter'', JObj [(''eventTypes'',
            JArr [JStr ''USER_CREATED'', JStr ''USER_UPDATED'', JStr ''USER_DELETED''])])]"
    using A4 by (simp add: unpaired_registration_def EventFilter_to_dict_def)
  have a2: "''httpHeader'' \<notin> fst ` set (CallbackRegistration_to_dict unpaired_registration)"
    using A4 by blast
  show ?thesis
    by (intro conjI u a1 a2 p [THEN conjunct1] B3 [THEN conjunct2])
qed









section \<open>Events\<close>

lemma replace_Z_Nil: "replace_Z [] = []"
  by (simp add: replace_Z_def)

lemma from_dict_missing_time:
  "p_time payload = None \<Longrightarrow>
   from_dict fromisoformat payload =
     (case fromisoformat [] of
        None \<Rightarrow> Inl ValueError_fromisoformat
      | Some tm \<Rightarrow>
          Inr \<lparr>type = (case p_type payload of None \<Rightarrow> [] | Some x \<Rightarrow> x),
               subject = (case p_subject payload of None \<Rightarrow> [] | Some x \<Rightarrow> x),
               time = tm,
               data = (case p_data payload of None \<Rightarrow> Map.empty | Some d \<Rightarrow> d),
               event_id = p_id payload,
               source = p_source payload,
               specversion = (case p_specversion payload of None \<Rightarrow> ''1.0'' | Some x \<Rightarrow> x)\<rparr>)"
  by (simp add: from_dict_def replace_Z_Nil)

lemma from_dict_string_time:
  "p_time payload = Some (JStr s) \<Longrightarrow>
   from_dict fromisoformat payload =
     (case fromisoformat (replace_Z s) of
        None \<Rightarrow> Inl ValueError_fromisoformat
      | Some tm \<Rightarrow>
          Inr \<lparr>type = (case p_type payload of None \<Rightarrow> [] | Some x \<Rightarrow> x),
               subject = (case p_subject payload of None \<Rightarrow> [] | Some x \<Rightarrow> x),
               time = tm,
               data = (case p_data payload of None \<Rightarrow> Map.empty | Some d \<Rightarrow> d),
               event_id = p_id payload,
               source = p_source payload,
               specversion = (case p_specversion payload of None \<Rightarrow> ''1.0'' | Some x \<Rightarrow> x)\<rparr>)"
  by (simp add: from_dict_def)

lemma from_dict_other_time:
  "p_time payload = Some v \<Longrightarrow> \<forall>s. v \<noteq> JStr s \<Longrightarrow>
   from_dict fromisoformat payload = Inl (AttributeError ''replace'')"
  by (cases v) (simp_all add: from_dict_def)

text \<open>
  C6, as amended.  Only the time can make parsing fail.  Without the key \<^verbatim>\<open>time\<close>
  the library's parser gets the empty string, which it rejects: \<^verbatim>\<open>ValueError\<close>.  A
  time that is a string has its \<^verbatim>\<open>Z\<close> replaced and goes to the parser: the payload
  fails with the parser's \<^verbatim>\<open>ValueError\<close> when the parser rejects the string, and is
  parsed when the parser accepts it.  A time that is not a string fails with
  \<open>AttributeError\<close>.  A missing type or subject does not fail: the event is built
  with the empty string in its place.
\<close>

theorem from_dict_fails_iff_time:
  "isl (from_dict fromisoformat payload) =
     (case p_time payload of
        None \<Rightarrow> fromisoformat [] = None
      | Some (JStr s) \<Rightarrow> fromisoformat (replace_Z s) = None
      | Some _ \<Rightarrow> True)
   \<and> (fromisoformat [] = None \<and> p_time payload = None \<longrightarrow>
         from_dict fromisoformat payload = Inl ValueError_fromisoformat)
   \<and> (\<forall>s. p_time payload = Some (JStr s) \<and> fromisoformat (replace_Z s) = None \<longrightarrow>
         from_dict fromisoformat payload = Inl ValueError_fromisoformat)
   \<and> (\<forall>v. p_time payload = Some v \<and> (\<forall>s. v \<noteq> JStr s) \<longrightarrow>
         from_dict fromisoformat payload = Inl (AttributeError ''replace''))
   \<and> (\<forall>s tm. p_time payload = Some (JStr s) \<and> fromisoformat (replace_Z s) = Some tm \<longrightarrow>
         from_dict fromisoformat payload =
           Inr \<lparr>type = (case p_type payload of None \<Rightarrow> [] | Some x \<Rightarrow> x),
                subject = (case p_subject payload of None \<Rightarrow> [] | Some x \<Rightarrow> x),
                time = tm,
                data = (case p_data payload of None \<Rightarrow> Map.empty | Some d \<Rightarrow> d),
                event_id = p_id payload,
                source = p_source payload,
                specversion = (case p_specversion payload of None \<Rightarrow> ''1.0'' | Some x \<Rightarrow> x)\<rparr>)"
proof -
  have c1: "isl (from_dict fromisoformat payload) =
     (case p_time payload of
        None \<Rightarrow> fromisoformat [] = None
      | Some (JStr s) \<Rightarrow> fromisoformat (replace_Z s) = None
      | Some _ \<Rightarrow> True)"
  proof (cases "p_time payload")
    case None
    then show ?thesis
      by (simp add: from_dict_missing_time split: option.split)
  next
    case (Some v)
    then show ?thesis
      by (cases v) (simp_all add: from_dict_def split: option.split)
  qed
  have c2: "fromisoformat [] = None \<and> p_time payload = None \<longrightarrow>
         from_dict fromisoformat payload = Inl ValueError_fromisoformat"
    by (simp add: from_dict_missing_time)
  have c3: "\<forall>s. p_time payload = Some (JStr s) \<and> fromisoformat (replace_Z s) = None \<longrightarrow>
         from_dict fromisoformat payload = Inl ValueError_fromisoformat"
    by (simp add: from_dict_string_time)
  have c4: "\<forall>v. p_time payload = Some v \<and> (\<forall>s. v \<noteq> JStr s) \<longrightarrow>
         from_dict fromisoformat payload = Inl (AttributeError ''replace'')"
    using from_dict_other_time [of payload _ fromisoformat] by blast
  have c5: "\<forall>s tm. p_time payload = Some (JStr s) \<and> fromisoformat (replace_Z s) = Some tm \<longrightarrow>
         from_dict fromisoformat payload =
           Inr \<lparr>type = (case p_type payload of None \<Rightarrow> [] | Some x \<Rightarrow> x),
                subject = (case p_subject payload of None \<Rightarrow> [] | Some x \<Rightarrow> x),
                time = tm,
                data = (case p_data payload of None \<Rightarrow> Map.empty | Some d \<Rightarrow> d),
                event_id = p_id payload,
                source = p_source payload,
                specversion = (case p_specversion payload of None \<Rightarrow> ''1.0'' | Some x \<Rightarrow> x)\<rparr>"
    by (simp add: from_dict_string_time)
  show ?thesis
    by (intro conjI c1 c2 c3 c4 c5)
qed

text \<open>
  In the examples the library's parser is the table of the one value that is needed:
  the string \<^verbatim>\<open>2025-11-10T14:05:00+00:00\<close> is parsed to \<open>example_time\<close>; the other
  strings the examples hand to it, the empty string and \<^verbatim>\<open>yesterday\<close>, are strings
  the library rejects.
\<close>

theorem from_dict_fails_iff_time_witness:
  "[''2025-11-10T14:05:00+00:00'' \<mapsto> example_time] [] = None
   \<and> p_time (bare_event\<lparr>p_time := None\<rparr>) = None
   \<and> from_dict [''2025-11-10T14:05:00+00:00'' \<mapsto> example_time] (bare_event\<lparr>p_time := None\<rparr>)
       = Inl ValueError_fromisoformat
   \<and> p_time (bare_event\<lparr>p_time := Some (JStr ''yesterday'')\<rparr>) = Some (JStr ''yesterday'')
   \<and> [''2025-11-10T14:05:00+00:00'' \<mapsto> example_time] (replace_Z ''yesterday'') = None
   \<and> from_dict [''2025-11-10T14:05:00+00:00'' \<mapsto> example_time]
        (bare_event\<lparr>p_time := Some (JStr ''yesterday'')\<rparr>) = Inl ValueError_fromisoformat
   \<and> p_time (bare_event\<lparr>p_time := Some JNull\<rparr>) = Some JNull
   \<and> (\<forall>s. JNull \<noteq> JStr s)
   \<and> from_dict [''2025-11-10T14:05:00+00:00'' \<mapsto> example_time]
        (bare_event\<lparr>p_time := Some JNull\<rparr>) = Inl (AttributeError ''replace'')
   \<and> p_time example_event = Some (JStr ''2025-11-10T14:05:00Z'')
   \<and> [''2025-11-10T14:05:00+00:00'' \<mapsto> example_time] (replace_Z ''2025-11-10T14:05:00Z'')
       = Some example_time
   \<and> from_dict [''2025-11-10T14:05:00+00:00'' \<mapsto> example_time] example_event =
       Inr \<lparr>type = ''PASS_UPDATED'', subject = ''pass/45d3d21e-xxxx'', time = example_time,
            data = [''status'' \<mapsto> PStr ''COMPLETED'', ''userId'' \<mapsto> PStr ''b47d-56f8-8bcd'',
                    ''organizationId'' \<mapsto> PStr ''7521464''],
            event_id = None, source = None, specversion = ''1.0''\<rparr>"
proof -
  have e: "[''2025-11-10T14:05:00+00:00'' \<mapsto> example_time] [] = None" by simp
  have n: "p_time (bare_event\<lparr>p_time := None\<rparr>) = None" by simp
  have y: "p_time (bare_event\<lparr>p_time := Some (JStr ''yesterday'')\<rparr>) = Some (JStr ''yesterday'')"
    by simp
  have r: "[''2025-11-10T14:05:00+00:00'' \<mapsto> example_time] (replace_Z ''yesterday'') = None"
    by (simp add: replace_Z_def)
  have j: "p_time (bare_event\<lparr>p_time := Some JNull\<rparr>) = Some JNull" by simp
  have q: "\<forall>s. JNull \<noteq> JStr s" by simp
  have x: "p_time example_event = Some (JStr ''2025-11-10T14:05:00Z'')"
    by (simp add: example_event_def)
  have z: "[''2025-11-10T14:05:00+00:00'' \<mapsto> example_time] (replace_Z ''2025-11-10T14:05:00Z'')
       = Some example_time"
    by (simp add: replace_Z_def)
  note A = from_dict_fails_iff_time
             [of "[''2025-11-10T14:05:00+00:00'' \<mapsto> example_time]" "bare_event\<lparr>p_time := None\<rparr>"]
  note B = from_dict_fails_iff_time
             [of "[''2025-11-10T14:05:00+00:00'' \<mapsto> example_time]"
                 "bare_event\<lparr>p_time := Some (JStr ''yesterday'')\<rparr>"]
  note C = from_dict_fails_iff_time
             [of "[''2025-11-10T14:05:00+00:00'' \<mapsto> example_time]"
                 "bare_event\<lparr>p_time := Some JNull\<rparr>"]
  note D = from_dict_fails_iff_time
             [of "[''2025-11-10T14:05:00+00:00'' \<mapsto> example_time]" example_event]
  note A2 = A [THEN conjunct2, THEN conjunct1, rule_format, OF conjI, OF e n]
  note B3 = B [THEN conjunct2, THEN conjunct2, THEN conjunct1, rule_format, OF conjI, OF y r]
  note C4 = C [THEN conjunct2, THEN conjunct2, THEN conjunct2, THEN conjunct1, rule_format,
               OF conjI, OF j q]
  note D5 = D [THEN conjunct2, THEN conjunct2, THEN conjunct2, THEN conjunct2, rule_format,
               OF conjI, OF x z]
  have d: "from_dict [''2025-11-10T14:05:00+00:00'' \<mapsto> example_time] example_event =
       Inr \<lparr>type = ''PASS_UPDATED'', subject = ''pass/45d3d21e-xxxx'', time = example_time,
            data = [''status'' \<mapsto> PStr ''COMPLETED'', ''userId'' \<mapsto> PStr ''b47d-56f8-8bcd'',
                    ''organizationId'' \<mapsto> PStr ''7521464''],
            event_id = None, source = None, specversion = ''1.0''\<rparr>"
    using D5 by (simp add: example_event_def)
  show ?thesis
    by (intro conjI e n A2 y r B3 j q C4 x z d)
qed

text \<open>
  The statement of C6 before the amendment, that a payload without \<^verbatim>\<open>type\<close> or without
  \<^verbatim>\<open>subject\<close> fails to parse, fails: a payload that has only the time
  \<^verbatim>\<open>2025-11-10T14:05:00Z\<close>, which the library parses once \<^verbatim>\<open>Z\<close> is replaced, is
  parsed, and the event has the empty string as type and as subject.
\<close>

theorem from_dict_missing_type_counterexample:
  "p_type bare_event = None \<and> p_subject bare_event = None
   \<and> from_dict [''2025-11-10T14:05:00+00:00'' \<mapsto> example_time] bare_event =
       Inr \<lparr>type = [], subject = [], time = example_time, data = Map.empty,
            event_id = None, source = None, specversion = ''1.0''\<rparr>"
  by (simp add: from_dict_def bare_event_def replace_Z_def)

lemma interpret_registered:
  "map_of interpretations ty =
     (if ty = ''PASS_UPDATED'' then Some interpret_pass_updated
      else if ty = ''PASS_CREATED'' then Some interpret_pass_created
      else if ty = ''USER_CREATED'' then Some interpret_user_created
      else if ty = ''USER_DELETED'' then Some interpret_user_deleted
      else None)"
  by (simp add: interpretations_def)

lemma interpret_unregistered:
  "type e \<notin> set (map fst interpretations) \<Longrightarrow> CloudEvent_interpret e = interpret_generic e"
  by (simp add: CloudEvent_interpret_def interpret_registered interpretations_def)

lemma interpret_pass_updated_dispatch:
  "type e = ''PASS_UPDATED'' \<Longrightarrow> CloudEvent_interpret e = interpret_pass_updated e"
  by (simp add: CloudEvent_interpret_def interpret_registered)

text \<open>
  C9.  For an event of type \<^verbatim>\<open>PASS_UPDATED\<close> whose data has the status
  \<^verbatim>\<open>COMPLETED\<close> and a user id, \<open>interpret\<close> returns the text that names the pass and
  the user and gives as action to mark the user's badge as ACTIVE and to send a
  confirmation notification to the user.  For an event whose type is not a key of the
  table of interpreters, \<open>interpret\<close> returns the generic text naming the type and the
  subject of the event.
\<close>

theorem interpret_completed_and_generic:
  "(type e = ''PASS_UPDATED'' \<and> data e ''status'' = Some (PStr ''COMPLETED'')
      \<and> data e ''userId'' = Some u \<longrightarrow>
        CloudEvent_interpret e =
          ''Pass '' @ subject e @ '' provisioning COMPLETED successfully.\<newline>'' @
          ''User '' @ py_str u @ '' now has an active credential.\<newline>'' @
          ''Action: Update internal database to mark user's badge as ACTIVE.\<newline>'' @
          ''         Send confirmation notification to user.\<newline>'' @
          ''         Update access control system if needed.'')
   \<and> (type e \<notin> set (map fst interpretations) \<longrightarrow>
        CloudEvent_interpret e = ''Event '' @ type e @ '' received for '' @ subject e)"
proof -
  have completed: "type e = ''PASS_UPDATED'' \<and> data e ''status'' = Some (PStr ''COMPLETED'')
      \<and> data e ''userId'' = Some u \<longrightarrow>
        CloudEvent_interpret e =
          ''Pass '' @ subject e @ '' provisioning COMPLETED successfully.\<newline>'' @
          ''User '' @ py_str u @ '' now has an active credential.\<newline>'' @
          ''Action: Update internal database to mark user's badge as ACTIVE.\<newline>'' @
          ''         Send confirmation notification to user.\<newline>'' @
          ''         Update access control system if needed.''"
  proof (intro impI, elim conjE)
    assume t: "type e = ''PASS_UPDATED''"
      and s: "data e ''status'' = Some (PStr ''COMPLETED'')"
      and i: "data e ''userId'' = Some u"
    have "CloudEvent_interpret e = interpret_pass_updated e"
      by (rule interpret_pass_updated_dispatch [OF t])
    also have "\<dots> =
          ''Pass '' @ subject e @ '' provisioning COMPLETED successfully.\<newline>'' @
          ''User '' @ py_str u @ '' now has an active credential.\<newline>'' @
          ''Action: Update internal database to mark user's badge as ACTIVE.\<newline>'' @
          ''         Send confirmation notification to user.\<newline>'' @
          ''         Update access control system if needed.''"
      using s i by (simp add: interpret_pass_updated_def dict_get_def Let_def)
    finally show "CloudEvent_interpret e =
          ''Pass '' @ subject e @ '' provisioning COMPLETED successfully.\<newline>'' @
          ''User '' @ py_str u @ '' now has an active credential.\<newline>'' @
          ''Action: Update internal database to mark user's badge as ACTIVE.\<newline>'' @
          ''         Send confirmation notification to user.\<newline>'' @
          ''         Update access control system if needed.''" .
  qed
  have generic: "type e \<notin> set (map fst interpretations) \<longrightarrow>
        CloudEvent_interpret e = ''Event '' @ type e @ '' received for '' @ subject e"
    by (simp add: interpret_unregistered interpret_generic_def)
  show ?thesis
    by (intro conjI completed generic)
qed

theorem interpret_completed_and_generic_witness:
  "type scenario_event = ''PASS_UPDATED''
   \<and> data scenario_event ''status'' = Some (PStr ''COMPLETED'')
   \<and> data scenario_event ''userId'' = Some (PStr ''u1'')
   \<and> CloudEvent_interpret scenario_event =
        ''Pass pass/abc provisioning COMPLETED successfully.\<newline>User u1 now has an active credential.\<newline>Action: Update internal database to mark user's badge as ACTIVE.\<newline>         Send confirmation notification to user.\<newline>         Update access control system if needed.''
   \<and> type (scenario_event\<lparr>type := ''CREDENTIAL_SUSPENDED''\<rparr>) \<notin> set (map fst interpretations)
   \<and> CloudEvent_interpret (scenario_event\<lparr>type := ''CREDENTIAL_SUSPENDED''\<rparr>) =
        ''Event CREDENTIAL_SUSPENDED received for pass/abc''"
proof -
  have t: "type scenario_event = ''PASS_UPDATED''" by (simp add: scenario_event_def)
  have s: "data scenario_event ''status'' = Some (PStr ''COMPLETED'')"
    by (simp add: scenario_event_def)
  have i: "data scenario_event ''userId'' = Some (PStr ''u1'')" by (simp add: scenario_event_def)
  have g: "type (scenario_event\<lparr>type := ''CREDENTIAL_SUSPENDED''\<rparr>) \<notin> set (map fst interpretations)"
    by (simp add: interpretations_def)
  note A = interpret_completed_and_generic [of scenario_event "PStr ''u1''"]
  note B = interpret_completed_and_generic
             [of "scenario_event\<lparr>type := ''CREDENTIAL_SUSPENDED''\<rparr>" "PStr ''u1''"]
  note A1 = A [THEN conjunct1, rule_format, OF conjI, OF t conjI, OF s i]
  note B2 = B [THEN conjunct2, rule_format, OF g]
  have a: "CloudEvent_interpret scenario_event =
        ''Pass pass/abc provisioning COMPLETED successfully.\<newline>User u1 now has an active credential.\<newline>Action: Update internal database to mark user's badge as ACTIVE.\<newline>         Send confirmation notification to user.\<newline>         Update access control system if needed.''"
    using A1 by (simp add: scenario_event_def)
  have b: "CloudEvent_interpret (scenario_event\<lparr>type := ''CREDENTIAL_SUSPENDED''\<rparr>) =
        ''Event CREDENTIAL_SUSPENDED received for pass/abc''"
    using B2 by (simp add: scenario_event_def)
  show ?thesis
    by (intro conjI t s i a g b)
qed

end
